theory Spec2Isabelle
  imports Main "HOL-Library.Multiset" "HOL-Library.List_Lexorder"
begin

section \<open>Python values shared by the modules\<close>

text \<open>
  A Python \<open>str\<close> is a sequence of Unicode code points; it is modelled as the list of
  these code points, so that the Chinese literals of the sources are ordinary values and
  the order of \<^theory_text>\<open>List_Lexorder\<close> is Python's order on \<open>str\<close> (lexicographic
  by code point). \<open>str\<close> turns an ASCII literal into such a list.
\<close>

type_synonym pystr = "nat list"

definition str :: "string \<Rightarrow> pystr" where
  "str s = map of_char s"

text \<open>The exceptions the modelled code can raise.\<close>

datatype error = KeyError | IndexError | ValueError | AttributeError | TypeError | OverflowError

text \<open>A dict is a finite map; Python's \<open>==\<close> on dicts is equality of the maps.\<close>

type_synonym ('k, 'v) dict = "'k \<rightharpoonup> 'v"

section \<open>character\_info\_cn.py: \<open>_merge_by_dict_key\<close>\<close>

text \<open>
  \<open>key_superset = set(list(first_info_map.keys()) + list(second_info_map.keys()))\<close>
\<close>

definition key_superset :: "('k, 'a) dict \<Rightarrow> ('k, 'b) dict \<Rightarrow> 'k set" where
  "key_superset first_info_map second_info_map = dom first_info_map \<union> dom second_info_map"

text \<open>
  The body of the loop over \<open>key_superset\<close>: \<open>value_map\<close> starts empty, receives every
  item of \<open>first_info_map[key]\<close> when the key is there, then every item of
  \<open>second_info_map[key]\<close> when the key is there. Writing all items of a dict \<open>d\<close> into
  \<open>value_map\<close> is \<open>value_map ++ d\<close>.
\<close>

definition value_map_of ::
  "('k, ('a, 'v) dict) dict \<Rightarrow> ('k, ('a, 'v) dict) dict \<Rightarrow> 'k \<Rightarrow> ('a, 'v) dict" where
  "value_map_of first_info_map second_info_map key =
     (let value_map = Map.empty;
          value_map = (case first_info_map key of
                         Some d \<Rightarrow> value_map ++ d
                       | None \<Rightarrow> value_map);
          value_map = (case second_info_map key of
                         Some d \<Rightarrow> value_map ++ d
                       | None \<Rightarrow> value_map)
      in value_map)"

definition merge_by_dict_key ::
  "('k, ('a, 'v) dict) dict \<Rightarrow> ('k, ('a, 'v) dict) dict \<Rightarrow> ('k, ('a, 'v) dict) dict" where
  "merge_by_dict_key first_info_map second_info_map =
     (\<lambda>key. if key \<in> key_superset first_info_map second_info_map
            then Some (value_map_of first_info_map second_info_map key)
            else None)"

section \<open>Python built-ins used by the modules\<close>

text \<open>
  What the interpreter and its libraries supply: the local-time conversion
  \<open>int(time.mktime(t).real)\<close> of a time tuple (year, month, day, hour, minute, second),
  \<open>None\<close> where \<open>mktime\<close> raises OverflowError; the decimal value of a non-ASCII
  code point in the Unicode database (a value from 0 to 9, or \<open>None\<close>);
  \<open>urllib.parse.unquote\<close>; and the limit \<open>sys.get_int_max_str_digits()\<close>
  (0 when the interpreter has none).
\<close>

record platform =
  mktime :: "int \<times> int \<times> int \<times> int \<times> int \<times> int \<Rightarrow> int option"
  to_decimal :: "nat \<Rightarrow> nat option"
  unquote :: "pystr \<Rightarrow> pystr"
  int_max_str_digits :: nat

text \<open>\<open>sys.maxsize\<close> on a 64-bit interpreter, the value the docstring quotes.\<close>

definition sys_maxsize :: int where
  "sys_maxsize = 9223372036854775807"

text \<open>\<open>xs[i]\<close> for an index literal \<open>i \<ge> 0\<close>.\<close>

definition index :: "'a list \<Rightarrow> nat \<Rightarrow> error + 'a" where
  "index xs i = (if i < length xs then Inr (xs ! i) else Inl IndexError)"

text \<open>
  A list comprehension or loop whose body may raise: the elements are evaluated in
  order and the first exception ends the evaluation.
\<close>

fun collect :: "('a \<Rightarrow> error + 'b) \<Rightarrow> 'a list \<Rightarrow> error + 'b list" where
  "collect f [] = Inr []"
| "collect f (x # xs) =
     (case f x of
        Inl e \<Rightarrow> Inl e
      | Inr y \<Rightarrow> (case collect f xs of Inl e \<Rightarrow> Inl e | Inr ys \<Rightarrow> Inr (y # ys)))"

text \<open>\<open>needle in haystack\<close> on \<open>str\<close>: the needle occurs as a contiguous piece.\<close>

fun py_in :: "pystr \<Rightarrow> pystr \<Rightarrow> bool" where
  "py_in needle [] = (needle = [])"
| "py_in needle (c # cs) = (take (length needle) (c # cs) = needle \<or> py_in needle cs)"

text \<open>The code points for which \<open>str.isspace\<close> holds; \<open>str.split()\<close> splits at them.\<close>

definition is_space :: "nat \<Rightarrow> bool" where
  "is_space c =
     ((9 \<le> c \<and> c \<le> 13) \<or> (28 \<le> c \<and> c \<le> 32) \<or> c = 133 \<or> c = 160 \<or> c = 5760
      \<or> (8192 \<le> c \<and> c \<le> 8202) \<or> c = 8232 \<or> c = 8233 \<or> c = 8239 \<or> c = 8287
      \<or> c = 12288)"

text \<open>
  \<open>s.split()\<close>: the maximal runs of non-space code points, in order. \<open>cur\<close> is the run
  being read.
\<close>

fun split_ws :: "pystr \<Rightarrow> pystr \<Rightarrow> pystr list" where
  "split_ws cur [] = (if cur = [] then [] else [cur])"
| "split_ws cur (c # cs) =
     (if is_space c then (if cur = [] then [] else [cur]) @ split_ws [] cs
      else split_ws (cur @ [c]) cs)"

definition py_split :: "pystr \<Rightarrow> pystr list" where
  "py_split s = split_ws [] s"

text \<open>\<open>s.split(sep)\<close> for a separator of one code point: empty pieces are kept.\<close>

fun split_on :: "nat \<Rightarrow> pystr \<Rightarrow> pystr \<Rightarrow> pystr list" where
  "split_on sep cur [] = [cur]"
| "split_on sep cur (c # cs) =
     (if c = sep then cur # split_on sep [] cs else split_on sep (cur @ [c]) cs)"

text \<open>
  \<open>int(s)\<close> for a \<open>str\<close>. The interpreter first rewrites the text to ASCII (a code point
  below 127 stays, another space becomes a blank, another decimal digit becomes its ASCII
  digit, anything else becomes \<open>?\<close>), then skips the C-locale blanks around the number,
  reads an optional sign and a run of digits in which single underscores may separate
  digits, and refuses more digits than the configured limit when there are more than 640.
  \<open>None\<close> stands for ValueError.
\<close>

definition to_ascii :: "platform \<Rightarrow> nat \<Rightarrow> nat" where
  "to_ascii pf c =
     (if c < 127 then c
      else if is_space c then 32
      else (case to_decimal pf c of Some d \<Rightarrow> 48 + d | None \<Rightarrow> 63))"

definition c_isspace :: "nat \<Rightarrow> bool" where
  "c_isspace c = ((9 \<le> c \<and> c \<le> 13) \<or> c = 32)"

definition is_digit :: "nat \<Rightarrow> bool" where
  "is_digit c = (48 \<le> c \<and> c \<le> 57)"

definition strip_blanks :: "pystr \<Rightarrow> pystr" where
  "strip_blanks s = rev (dropWhile c_isspace (rev (dropWhile c_isspace s)))"

fun digits_ok :: "bool \<Rightarrow> pystr \<Rightarrow> bool" where
  "digits_ok prev_digit [] = prev_digit"
| "digits_ok prev_digit (c # cs) =
     (if is_digit c then digits_ok True cs
      else if c = 95 \<and> prev_digit then digits_ok False cs
      else False)"

definition digits_value :: "pystr \<Rightarrow> int" where
  "digits_value ds = foldl (\<lambda>acc c. 10 * acc + int (c - 48)) 0 ds"

definition py_int :: "platform \<Rightarrow> pystr \<Rightarrow> int option" where
  "py_int pf s =
     (let body = strip_blanks (map (to_ascii pf) s);
          negative = (take 1 body = [45]);
          body = (if take 1 body = [43] \<or> take 1 body = [45] then drop 1 body else body);
          ds = filter is_digit body
      in if \<not> digits_ok False body then None
         else if 640 < length ds \<and> 0 < int_max_str_digits pf \<and> int_max_str_digits pf < length ds
         then None
         else Some (if negative then - digits_value ds else digits_value ds))"

text \<open>\<open>str(n)\<close> for a natural number, used to write dates and dictionary keys.\<close>

fun decimal_str :: "nat \<Rightarrow> pystr" where
  "decimal_str n = (if n < 10 then [48 + n] else decimal_str (n div 10) @ [48 + n mod 10])"

declare decimal_str.simps [simp del]

section \<open>spiral\_abyss/period\_info.py\<close>

text \<open>
  What the functions read of the parsed page. Of a table row: the text of its first
  \<open>th\<close> and its first \<open>td\<close>, each \<open>None\<close> when the row has no such element (a tag
  that exists is truthy, whatever it contains). Of a \<open>td\<close>: the text of its first
  \<open>center\<close> element, and its \<open>a\<close> elements in document order. Of a link: the
  \<open>title\<close> and \<open>href\<close> attributes and the text.
\<close>

record link =
  link_title :: "pystr option"
  link_text :: pystr
  link_href :: "pystr option"

record cell =
  cell_center :: "pystr option"
  cell_links :: "link list"

record row =
  row_th :: "pystr option"
  row_td :: "cell option"

text \<open>The literals of the module, as code points.\<close>

definition ENEMY_PAGE_URL_PREFIX :: pystr where
  "ENEMY_PAGE_URL_PREFIX = str ''https://wiki.biligame.com''"

definition ENEMY_LEVEL_HEADER :: pystr where
  "ENEMY_LEVEL_HEADER = [24618, 29289, 31561, 32423]"

definition FIRST_HALF :: pystr where
  "FIRST_HALF = [19978, 21322]"

definition SECOND_HALF :: pystr where
  "SECOND_HALF = [19979, 21322]"

subsection \<open>\<open>__get_enemy_levels_in_order\<close>\<close>

text \<open>\<open>int(row.td.center.get_text().split(".")[1])\<close>\<close>

definition enemy_level_of_row :: "platform \<Rightarrow> row \<Rightarrow> error + int" where
  "enemy_level_of_row pf r =
     (case row_td r of
        None \<Rightarrow> Inl AttributeError
      | Some td \<Rightarrow>
          (case cell_center td of
             None \<Rightarrow> Inl AttributeError
           | Some txt \<Rightarrow>
               (case index (split_on 46 [] txt) 1 of
                  Inl e \<Rightarrow> Inl e
                | Inr piece \<Rightarrow>
                    (case py_int pf piece of
                       None \<Rightarrow> Inl ValueError
                     | Some level \<Rightarrow> Inr level))))"

definition is_enemy_level_row :: "row \<Rightarrow> bool" where
  "is_enemy_level_row r =
     (case row_th r of None \<Rightarrow> False | Some header \<Rightarrow> py_in ENEMY_LEVEL_HEADER header)"

definition get_enemy_levels_in_order :: "platform \<Rightarrow> row list \<Rightarrow> error + int list" where
  "get_enemy_levels_in_order pf all_current_period_wikitable_rows =
     collect (enemy_level_of_row pf) (filter is_enemy_level_row all_current_period_wikitable_rows)"

subsection \<open>\<open>__get_halves_in_order\<close>\<close>

text \<open>\<open>if row.th and half in row.th.get_text() and row.td: append(row.td)\<close>\<close>

fun get_halves_in_order :: "pystr \<Rightarrow> row list \<Rightarrow> cell list" where
  "get_halves_in_order half [] = []"
| "get_halves_in_order half (r # rows) =
     (case row_th r of
        None \<Rightarrow> get_halves_in_order half rows
      | Some header \<Rightarrow>
          (if py_in half header
           then (case row_td r of
                   None \<Rightarrow> get_halves_in_order half rows
                 | Some td \<Rightarrow> td # get_halves_in_order half rows)
           else get_halves_in_order half rows))"

subsection \<open>\<open>__deduplicated_enemy_info\<close> and \<open>__extract_enemy_info\<close>\<close>

record enemy =
  nameCn :: pystr
  biligameUrl :: pystr

text \<open>The loop of \<open>__deduplicated_enemy_info\<close>, with the set \<open>existing_name_cn\<close>.\<close>

fun dedup_loop :: "pystr set \<Rightarrow> enemy list \<Rightarrow> enemy list" where
  "dedup_loop existing_name_cn [] = []"
| "dedup_loop existing_name_cn (info # enemy_info) =
     (if nameCn info \<notin> existing_name_cn
      then info # dedup_loop (insert (nameCn info) existing_name_cn) enemy_info
      else dedup_loop existing_name_cn enemy_info)"

definition deduplicated_enemy_info :: "enemy list \<Rightarrow> enemy list" where
  "deduplicated_enemy_info enemy_info = dedup_loop {} enemy_info"

text \<open>
  \<open>link.get("title") == link.get_text()\<close>: a missing title is \<open>None\<close> and equals no
  text.
\<close>

definition title_is_text :: "link \<Rightarrow> bool" where
  "title_is_text l = (link_title l = Some (link_text l))"

text \<open>
  The dict built for a kept link; \<open>ENEMY_PAGE_URL_PREFIX + link.get("href")\<close> raises
  TypeError when the link has no \<open>href\<close>.
\<close>

definition enemy_of_link :: "platform \<Rightarrow> link \<Rightarrow> error + enemy" where
  "enemy_of_link pf l =
     (case link_href l of
        None \<Rightarrow> Inl TypeError
      | Some href \<Rightarrow>
          Inr \<lparr>nameCn = link_text l, biligameUrl = unquote pf (ENEMY_PAGE_URL_PREFIX @ href)\<rparr>)"

definition extract_enemy_info :: "platform \<Rightarrow> cell \<Rightarrow> error + enemy list" where
  "extract_enemy_info pf single_half =
     (case collect (enemy_of_link pf) (filter title_is_text (cell_links single_half)) of
        Inl e \<Rightarrow> Inl e
      | Inr enemy_info \<Rightarrow> Inr (deduplicated_enemy_info enemy_info))"

subsection \<open>\<open>__get_period_info\<close>\<close>

record half_info =
  enemies :: "enemy list"

record chamber =
  enemyLevel :: int
  firstHalf :: half_info
  secondHalf :: half_info

type_synonym floor = "(pystr, chamber) dict"
type_synonym period_info = "(pystr, floor) dict"

text \<open>
  One chamber literal of the source, for the index \<open>i\<close> written there:
  \<open>enemy_levels_in_order[i]\<close>, then \<open>first_halves_enemy_info_in_order[i]\<close>, then
  \<open>second_halves_enemy_info_in_order[i]\<close>.
\<close>

definition chamber_at ::
  "int list \<Rightarrow> enemy list list \<Rightarrow> enemy list list \<Rightarrow> nat \<Rightarrow> error + chamber" where
  "chamber_at enemy_levels_in_order first_halves second_halves i =
     (case index enemy_levels_in_order i of
        Inl e \<Rightarrow> Inl e
      | Inr level \<Rightarrow>
          (case index first_halves i of
             Inl e \<Rightarrow> Inl e
           | Inr first \<Rightarrow>
               (case index second_halves i of
                  Inl e \<Rightarrow> Inl e
                | Inr second \<Rightarrow>
                    Inr \<lparr>enemyLevel = level,
                         firstHalf = \<lparr>enemies = first\<rparr>,
                         secondHalf = \<lparr>enemies = second\<rparr>\<rparr>)))"

text \<open>
  One floor literal of the source: chambers 1 to 3 from the indices \<open>i\<close>, \<open>i + 1\<close> and
  \<open>i + 2\<close>.
\<close>

definition floor_at ::
  "int list \<Rightarrow> enemy list list \<Rightarrow> enemy list list \<Rightarrow> nat \<Rightarrow> error + floor" where
  "floor_at enemy_levels_in_order first_halves second_halves i =
     (case chamber_at enemy_levels_in_order first_halves second_halves i of
        Inl e \<Rightarrow> Inl e
      | Inr c1 \<Rightarrow>
          (case chamber_at enemy_levels_in_order first_halves second_halves (i + 1) of
             Inl e \<Rightarrow> Inl e
           | Inr c2 \<Rightarrow>
               (case chamber_at enemy_levels_in_order first_halves second_halves (i + 2) of
                  Inl e \<Rightarrow> Inl e
                | Inr c3 \<Rightarrow>
                    Inr [str ''chamber1'' \<mapsto> c1, str ''chamber2'' \<mapsto> c2,
                         str ''chamber3'' \<mapsto> c3])))"

text \<open>
  Lines 274 to 396: \<open>period_info["floor9"]\<close> from the indices 0 to 2, \<open>"floor10"\<close> from
  3 to 5, \<open>"floor11"\<close> from 6 to 8, \<open>"floor12"\<close> from 9 to 11.
\<close>

definition assemble_period_info ::
  "int list \<Rightarrow> enemy list list \<Rightarrow> enemy list list \<Rightarrow> error + period_info" where
  "assemble_period_info enemy_levels_in_order first_halves second_halves =
     (case floor_at enemy_levels_in_order first_halves second_halves 0 of
        Inl e \<Rightarrow> Inl e
      | Inr f9 \<Rightarrow>
          (case floor_at enemy_levels_in_order first_halves second_halves 3 of
             Inl e \<Rightarrow> Inl e
           | Inr f10 \<Rightarrow>
               (case floor_at enemy_levels_in_order first_halves second_halves 6 of
                  Inl e \<Rightarrow> Inl e
                | Inr f11 \<Rightarrow>
                    (case floor_at enemy_levels_in_order first_halves second_halves 9 of
                       Inl e \<Rightarrow> Inl e
                     | Inr f12 \<Rightarrow>
                         Inr [str ''floor9'' \<mapsto> f9, str ''floor10'' \<mapsto> f10,
                              str ''floor11'' \<mapsto> f11, str ''floor12'' \<mapsto> f12]))))"

text \<open>
  Lines 262 to 396, on the rows of the period: the two half lists, the enemy lists of
  each, the levels, then the record.
\<close>

definition decode_rows :: "platform \<Rightarrow> row list \<Rightarrow> error + period_info" where
  "decode_rows pf all_wikitable_rows =
     (let first_halves_in_order = get_halves_in_order FIRST_HALF all_wikitable_rows;
          second_halves_in_order = get_halves_in_order SECOND_HALF all_wikitable_rows
      in case collect (extract_enemy_info pf) first_halves_in_order of
           Inl e \<Rightarrow> Inl e
         | Inr first_halves \<Rightarrow>
             (case collect (extract_enemy_info pf) second_halves_in_order of
                Inl e \<Rightarrow> Inl e
              | Inr second_halves \<Rightarrow>
                  (case get_enemy_levels_in_order pf all_wikitable_rows of
                     Inl e \<Rightarrow> Inl e
                   | Inr enemy_levels_in_order \<Rightarrow>
                       assemble_period_info enemy_levels_in_order first_halves second_halves)))"

text \<open>
  The page as \<open>__get_all_wikitable_rows_by_period_id\<close> reads it: the rows of a period
  id, \<open>None\<close> when the page has no \<open>span\<close> with that id (the chained \<open>find_all_next\<close>
  then raises AttributeError).
\<close>

type_synonym page = "(pystr, row list) dict"

text \<open>
  \<open>__get_period_info\<close>. The state is the number of \<open>requests.get\<close> calls made so far;
  the call at line 258 makes one more and returns the page.
\<close>

definition get_period_info :: "platform \<Rightarrow> page \<Rightarrow> pystr \<Rightarrow> nat \<Rightarrow> (error + period_info) \<times> nat" where
  "get_period_info pf period_page period_id fetches =
     (let fetches = fetches + 1
      in case period_page period_id of
           None \<Rightarrow> (Inl AttributeError, fetches)
         | Some all_wikitable_rows \<Rightarrow> (decode_rows pf all_wikitable_rows, fetches))"

subsection \<open>\<open>get_period_info_map\<close>\<close>

text \<open>
  The dict comprehension over the configured periods, each a dict with the keys
  \<open>period\<close> and \<open>periodKey\<close>: the key expression is evaluated first, then
  \<open>__get_period_info\<close>, and the entry is written.
\<close>

fun period_info_map_loop ::
  "platform \<Rightarrow> page \<Rightarrow> (pystr, period_info) dict \<Rightarrow> (pystr, pystr) dict list \<Rightarrow> nat
   \<Rightarrow> (error + (pystr, period_info) dict) \<times> nat" where
  "period_info_map_loop pf period_page acc [] fetches = (Inr acc, fetches)"
| "period_info_map_loop pf period_page acc (period # periods) fetches =
     (case period (str ''period'') of
        None \<Rightarrow> (Inl KeyError, fetches)
      | Some label \<Rightarrow>
          (case period (str ''periodKey'') of
             None \<Rightarrow> (Inl KeyError, fetches)
           | Some period_id \<Rightarrow>
               (case get_period_info pf period_page period_id fetches of
                  (Inl e, fetches') \<Rightarrow> (Inl e, fetches')
                | (Inr info, fetches') \<Rightarrow>
                    period_info_map_loop pf period_page (acc(label \<mapsto> info)) periods fetches')))"

definition get_period_info_map ::
  "platform \<Rightarrow> page \<Rightarrow> (pystr, pystr) dict list \<Rightarrow> nat
   \<Rightarrow> (error + (pystr, period_info) dict) \<times> nat" where
  "get_period_info_map pf period_page periods fetches =
     period_info_map_loop pf period_page Map.empty periods fetches"

section \<open>character/character\_info.py\<close>

text \<open>A character is the dict of its attributes.\<close>

type_synonym character = "(pystr, pystr) dict"

definition RELEASE_DATE :: pystr where
  "RELEASE_DATE = str ''releaseDate''"

text \<open>
  \<open>calendar.month_name\<close> in the default (English) locale, and the table built from it:
  \<open>{month: index for index, month in enumerate(calendar.month_name) if month}\<close>.
\<close>

definition calendar_month_name :: "pystr list" where
  "calendar_month_name =
     [] # map str [''January'', ''February'', ''March'', ''April'', ''May'', ''June'', ''July'',
                   ''August'', ''September'', ''October'', ''November'', ''December'']"

definition MONTH_NAME_TO_NUM :: "(pystr, int) dict" where
  "MONTH_NAME_TO_NUM =
     foldl (\<lambda>d (index, month). if month \<noteq> [] then d(month \<mapsto> int index) else d)
       Map.empty (enumerate 0 calendar_month_name)"

subsection \<open>\<open>datetime.datetime(year, month, day)\<close>\<close>

definition is_leap :: "int \<Rightarrow> bool" where
  "is_leap year = (year mod 4 = 0 \<and> (year mod 100 \<noteq> 0 \<or> year mod 400 = 0))"

definition days_in_month :: "int \<Rightarrow> int \<Rightarrow> int" where
  "days_in_month year month =
     (if month = 2 then (if is_leap year then 29 else 28)
      else if month = 4 \<or> month = 6 \<or> month = 9 \<or> month = 11 then 30
      else 31)"

definition fits_c_int :: "int \<Rightarrow> bool" where
  "fits_c_int n = (- 2147483648 \<le> n \<and> n \<le> 2147483647)"

definition valid_date :: "int \<Rightarrow> int \<Rightarrow> int \<Rightarrow> bool" where
  "valid_date year month day =
     (1 \<le> year \<and> year \<le> 9999 \<and> 1 \<le> month \<and> month \<le> 12
      \<and> 1 \<le> day \<and> day \<le> days_in_month year month)"

text \<open>
  The constructor raises OverflowError for an argument outside the C \<open>int\<close> range and
  ValueError for a date that does not exist; \<open>timetuple()\<close> of the result is the date at
  00:00:00.
\<close>

definition datetime :: "int \<Rightarrow> int \<Rightarrow> int \<Rightarrow> error + int \<times> int \<times> int \<times> int \<times> int \<times> int" where
  "datetime year month day =
     (if \<not> (fits_c_int year \<and> fits_c_int month \<and> fits_c_int day) then Inl OverflowError
      else if \<not> valid_date year month day then Inl ValueError
      else Inr (year, month, day, 0, 0, 0))"

subsection \<open>\<open>__convert_to_local_unix_date_tamp\<close>\<close>

text \<open>
  The arguments are evaluated in the order written: the year from the third piece, the
  month from the first, the day from the second piece without its last code point.
\<close>

definition convert_to_local_unix_date_tamp :: "platform \<Rightarrow> pystr \<Rightarrow> error + int" where
  "convert_to_local_unix_date_tamp pf date_string =
     (case index (py_split date_string) 2 of
        Inl e \<Rightarrow> Inl e
      | Inr year_text \<Rightarrow>
     (case py_int pf year_text of
        None \<Rightarrow> Inl ValueError
      | Some year \<Rightarrow>
     (case index (py_split date_string) 0 of
        Inl e \<Rightarrow> Inl e
      | Inr month_text \<Rightarrow>
     (case MONTH_NAME_TO_NUM month_text of
        None \<Rightarrow> Inl KeyError
      | Some month \<Rightarrow>
     (case index (py_split date_string) 1 of
        Inl e \<Rightarrow> Inl e
      | Inr day_text \<Rightarrow>
     (case py_int pf (butlast day_text) of
        None \<Rightarrow> Inl ValueError
      | Some day \<Rightarrow>
     (case datetime year month day of
        Inl e \<Rightarrow> Inl e
      | Inr timetuple \<Rightarrow>
     (case mktime pf timetuple of
        None \<Rightarrow> Inl OverflowError
      | Some stamp \<Rightarrow> Inr stamp))))))))"

subsection \<open>\<open>get_character_release_date_stamp\<close>\<close>

definition get_character_release_date_stamp :: "platform \<Rightarrow> character \<Rightarrow> error + int" where
  "get_character_release_date_stamp pf character =
     (case character RELEASE_DATE of
        Some date_string \<Rightarrow> convert_to_local_unix_date_tamp pf date_string
      | None \<Rightarrow> Inr sys_maxsize)"

subsection \<open>\<open>__group_by_release_date_stamp\<close>\<close>

text \<open>
  The \<open>defaultdict(list)\<close> keeps its keys in the order of their first use; it is a list
  of pairs. \<open>new_dict[key].append(x)\<close>:
\<close>

fun defaultdict_append :: "('k \<times> 'a list) list \<Rightarrow> 'k \<Rightarrow> 'a \<Rightarrow> ('k \<times> 'a list) list" where
  "defaultdict_append [] key x = [(key, [x])]"
| "defaultdict_append ((k, xs) # d) key x =
     (if k = key then (k, xs @ [x]) # d else (k, xs) # defaultdict_append d key x)"

text \<open>The loop over \<open>character_info_map.values()\<close>, given as the list of these values.\<close>

fun group_loop ::
  "platform \<Rightarrow> (int \<times> character list) list \<Rightarrow> character list
   \<Rightarrow> error + (int \<times> character list) list" where
  "group_loop pf new_dict [] = Inr new_dict"
| "group_loop pf new_dict (character # characters) =
     (case get_character_release_date_stamp pf character of
        Inl e \<Rightarrow> Inl e
      | Inr stamp \<Rightarrow> group_loop pf (defaultdict_append new_dict stamp character) characters)"

definition group_by_release_date_stamp ::
  "platform \<Rightarrow> character list \<Rightarrow> error + (int \<times> character list) list" where
  "group_by_release_date_stamp pf characters = group_loop pf [] characters"

subsection \<open>\<open>__sort_by_character_name_cn\<close>\<close>

text \<open>
  \<open>sorted(characters, key=lambda character: character["nameCn"])\<close>: the key of every
  element is computed first, so a character without the attribute raises KeyError; the
  sort is stable.
\<close>

definition name_cn_key :: "character \<Rightarrow> error + pystr \<times> character" where
  "name_cn_key character =
     (case character (str ''nameCn'') of
        None \<Rightarrow> Inl KeyError
      | Some name \<Rightarrow> Inr (name, character))"

definition sort_by_character_name_cn :: "character list \<Rightarrow> error + character list" where
  "sort_by_character_name_cn characters =
     (case collect name_cn_key characters of
        Inl e \<Rightarrow> Inl e
      | Inr keyed \<Rightarrow> Inr (map snd (sort_key fst keyed)))"

subsection \<open>\<open>get_character_info_map\<close> and \<open>get_character_info_json\<close>\<close>

text \<open>
  \<open>get_character_info_map\<close> merges what the two source modules return, here its
  arguments.
\<close>

definition get_character_info_map ::
  "(pystr, character) dict \<Rightarrow> (pystr, character) dict \<Rightarrow> (pystr, character) dict" where
  "get_character_info_map character_info_cn character_info_en =
     merge_by_dict_key character_info_cn character_info_en"

text \<open>
  Lines 177 to 189 of \<open>get_character_info_json\<close>, on the values of the map in their
  iteration order: group, sort each group in the order of the dict, sort the keys, and
  concatenate. A \<open>defaultdict\<close> answers a missing key with the empty list. The result is
  \<open>ordered_character_list\<close>, which line 191 serialises.
\<close>

definition sort_group :: "int \<times> character list \<Rightarrow> error + int \<times> character list" where
  "sort_group item =
     (case sort_by_character_name_cn (snd item) of
        Inl e \<Rightarrow> Inl e
      | Inr characters \<Rightarrow> Inr (fst item, characters))"

definition defaultdict_get :: "('k \<times> 'a list) list \<Rightarrow> 'k \<Rightarrow> 'a list" where
  "defaultdict_get d key = (case map_of d key of None \<Rightarrow> [] | Some xs \<Rightarrow> xs)"

definition ordered_character_list :: "platform \<Rightarrow> character list \<Rightarrow> error + character list" where
  "ordered_character_list pf characters =
     (case group_by_release_date_stamp pf characters of
        Inl e \<Rightarrow> Inl e
      | Inr grouped \<Rightarrow>
          (case collect sort_group grouped of
             Inl e \<Rightarrow> Inl e
           | Inr release_date_stamp_to_characters \<Rightarrow>
               (let release_date_stamps_in_order = sort (map fst release_date_stamp_to_characters)
                in Inr (concat (map (defaultdict_get release_date_stamp_to_characters)
                                   release_date_stamps_in_order)))))"

text \<open>
  The values of a dict in the order \<open>keys\<close> in which it iterates. The merged map is
  filled in the iteration order of a \<open>set\<close> of strings, which the interpreter's hashing
  decides, so this order is an input.
\<close>

definition dict_values :: "'k list \<Rightarrow> ('k, 'v) dict \<Rightarrow> 'v list" where
  "dict_values keys d = List.map_filter d keys"

definition get_character_info_json ::
  "platform \<Rightarrow> pystr list \<Rightarrow> (pystr, character) dict \<Rightarrow> (pystr, character) dict
   \<Rightarrow> error + character list" where
  "get_character_info_json pf keys character_info_cn character_info_en =
     ordered_character_list pf
       (dict_values keys (get_character_info_map character_info_cn character_info_en))"

section \<open>An interpreter for the examples\<close>

text \<open>
  A platform in the UTC time zone: \<open>mktime\<close> counts the days since 1970-01-01 in the
  proleptic Gregorian calendar. The texts of the examples hold neither non-ASCII digits
  nor percent escapes, so the other two tables are not consulted on them.
\<close>

definition days_from_civil :: "int \<Rightarrow> int \<Rightarrow> int \<Rightarrow> int" where
  "days_from_civil year month day =
     (let y = (if month \<le> 2 then year - 1 else year);
          m = (if month \<le> 2 then month + 9 else month - 3)
      in 365 * y + y div 4 - y div 100 + y div 400 + (153 * m + 2) div 5 + day - 1 - 719468)"

definition utc_mktime :: "int \<times> int \<times> int \<times> int \<times> int \<times> int \<Rightarrow> int option" where
  "utc_mktime t =
     (case t of (year, month, day, hour, minute, second) \<Rightarrow>
        Some (days_from_civil year month day * 86400 + hour * 3600 + minute * 60 + second))"

definition utc_platform :: platform where
  "utc_platform =
     \<lparr>mktime = utc_mktime, to_decimal = (\<lambda>c. None), unquote = (\<lambda>s. s),
      int_max_str_digits = 4300\<rparr>"

text \<open>The keys of the period record for floor \<open>n\<close> and chamber \<open>n\<close>.\<close>

definition floor_key :: "nat \<Rightarrow> pystr" where
  "floor_key n = str ''floor'' @ decimal_str n"

definition chamber_key :: "nat \<Rightarrow> pystr" where
  "chamber_key n = str ''chamber'' @ decimal_str n"

section \<open>Properties of the merge\<close>

lemma merge_by_dict_key_apply:
  "merge_by_dict_key f s k =
     (case (f k, s k) of
        (None, None) \<Rightarrow> None
      | (Some a, None) \<Rightarrow> Some a
      | (None, Some b) \<Rightarrow> Some b
      | (Some a, Some b) \<Rightarrow> Some (a ++ b))"
  by (simp add: merge_by_dict_key_def key_superset_def value_map_of_def dom_def
      split: option.splits)

text \<open>
  Claim C1. The merged map has exactly the keys of the two inputs together. At a key of
  both inputs the value holds the attributes of \<open>first[key]\<close> overlaid with those of
  \<open>second[key]\<close>: an attribute of the second input has the second input's value, any
  other attribute has the value of the first input. A key of one input only maps to that
  input's attribute map. The function has no failing branch.
\<close>

theorem merge_by_dict_key_union_overlay:
  "dom (merge_by_dict_key f s) = dom f \<union> dom s
   \<and> (\<forall>k a b. f k = Some a \<and> s k = Some b \<longrightarrow>
         (\<exists>m. merge_by_dict_key f s k = Some m
            \<and> dom m = dom a \<union> dom b
            \<and> (\<forall>x. m x = (case b x of Some v \<Rightarrow> Some v | None \<Rightarrow> a x))))
   \<and> (\<forall>k a. f k = Some a \<and> s k = None \<longrightarrow> merge_by_dict_key f s k = Some a)
   \<and> (\<forall>k b. f k = None \<and> s k = Some b \<longrightarrow> merge_by_dict_key f s k = Some b)"
proof (intro conjI allI impI)
  show "dom (merge_by_dict_key f s) = dom f \<union> dom s"
    by (auto simp add: merge_by_dict_key_apply dom_def split: option.splits)
next
  fix k a b
  assume "f k = Some a \<and> s k = Some b"
  then have "merge_by_dict_key f s k = Some (a ++ b)"
    by (simp add: merge_by_dict_key_apply)
  moreover have "\<forall>x. (a ++ b) x = (case b x of Some v \<Rightarrow> Some v | None \<Rightarrow> a x)"
    by (simp add: map_add_def split: option.splits)
  ultimately show "\<exists>m. merge_by_dict_key f s k = Some m
            \<and> dom m = dom a \<union> dom b
            \<and> (\<forall>x. m x = (case b x of Some v \<Rightarrow> Some v | None \<Rightarrow> a x))"
    by (auto simp add: Un_commute)
next
  fix k a
  assume "f k = Some a \<and> s k = None"
  then show "merge_by_dict_key f s k = Some a"
    by (simp add: merge_by_dict_key_apply)
next
  fix k b
  assume "f k = None \<and> s k = Some b"
  then show "merge_by_dict_key f s k = Some b"
    by (simp add: merge_by_dict_key_apply)
qed

theorem merge_by_dict_key_union_overlay_witness:
  "merge_by_dict_key
       [(1::nat) \<mapsto> [(10::nat) \<mapsto> (100::nat), 11 \<mapsto> 101], 2 \<mapsto> [10 \<mapsto> 102]]
       [1 \<mapsto> [11 \<mapsto> 201, 12 \<mapsto> 202], 3 \<mapsto> [10 \<mapsto> 203]] 1
     = Some [10 \<mapsto> 100, 11 \<mapsto> 201, 12 \<mapsto> 202]
   \<and> merge_by_dict_key
       [(1::nat) \<mapsto> [(10::nat) \<mapsto> (100::nat), 11 \<mapsto> 101], 2 \<mapsto> [10 \<mapsto> 102]]
       [1 \<mapsto> [11 \<mapsto> 201, 12 \<mapsto> 202], 3 \<mapsto> [10 \<mapsto> 203]] 2
     = Some [10 \<mapsto> 102]
   \<and> merge_by_dict_key
       [(1::nat) \<mapsto> [(10::nat) \<mapsto> (100::nat), 11 \<mapsto> 101], 2 \<mapsto> [10 \<mapsto> 102]]
       [1 \<mapsto> [11 \<mapsto> 201, 12 \<mapsto> 202], 3 \<mapsto> [10 \<mapsto> 203]] 3
     = Some [10 \<mapsto> 203]"
proof -
  let ?f = "[(1::nat) \<mapsto> [(10::nat) \<mapsto> (100::nat), 11 \<mapsto> 101], 2 \<mapsto> [10 \<mapsto> 102]]"
  let ?s = "[(1::nat) \<mapsto> [(11::nat) \<mapsto> (201::nat), 12 \<mapsto> 202], 3 \<mapsto> [10 \<mapsto> 203]]"
  note inst = merge_by_dict_key_union_overlay [of ?f ?s]
  have both: "?f 1 = Some [10 \<mapsto> 100, 11 \<mapsto> 101] \<and> ?s 1 = Some [11 \<mapsto> 201, 12 \<mapsto> 202]"
    by simp
  from inst both obtain m where m: "merge_by_dict_key ?f ?s 1 = Some m"
    and mx: "\<forall>x. m x = (case [11 \<mapsto> 201, 12 \<mapsto> (202::nat)] x of
                          Some v \<Rightarrow> Some v | None \<Rightarrow> [10 \<mapsto> 100, 11 \<mapsto> 101] x)"
    by blast
  have "m = [10 \<mapsto> 100, 11 \<mapsto> 201, 12 \<mapsto> 202]"
    by (rule ext) (simp add: mx)
  with m have one: "merge_by_dict_key ?f ?s 1 = Some [10 \<mapsto> 100, 11 \<mapsto> 201, 12 \<mapsto> 202]"
    by simp
  have "?f 2 = Some [10 \<mapsto> 102] \<and> ?s 2 = None" by simp
  with inst have two: "merge_by_dict_key ?f ?s 2 = Some [10 \<mapsto> 102]" by blast
  have "?f 3 = None \<and> ?s 3 = Some [10 \<mapsto> 203]" by simp
  with inst have three: "merge_by_dict_key ?f ?s 3 = Some [10 \<mapsto> 203]" by blast
  from one two three show ?thesis by simp
qed

text \<open>
  Claim C10. The merge is associative, so the nested merges that assemble names, titles
  or metadata, and page URLs do not depend on how they are associated.
\<close>

theorem merge_by_dict_key_assoc:
  "merge_by_dict_key (merge_by_dict_key A B) C = merge_by_dict_key A (merge_by_dict_key B C)"
  by (rule ext) (simp add: merge_by_dict_key_apply split: option.splits)

end
